theory Spec2Isabelle
  imports Complex_Main
begin

section \<open>JavaScript numbers\<close>

text \<open>
  The program computes with JavaScript numbers. They are modelled as the extended reals
  with a not-a-number value: a finite number is an exact real (no rounding, no overflow
  to infinity, and the two IEEE zeros are one value, read as the positive zero when a
  division needs its sign), and the three special values behave as IEEE 754 and
  ECMAScript prescribe. Every claim below that depends on a special value depends on
  \<open>0 / 0 = NaN\<close> or on a division by zero, never on rounding.
\<close>

datatype jsnum = Num real | PInf | NInf | NaN

fun js_neg :: "jsnum \<Rightarrow> jsnum" where
  "js_neg (Num a) = Num (- a)"
| "js_neg PInf = NInf"
| "js_neg NInf = PInf"
| "js_neg NaN = NaN"

fun js_add :: "jsnum \<Rightarrow> jsnum \<Rightarrow> jsnum" where
  "js_add (Num a) (Num b) = Num (a + b)"
| "js_add NaN _ = NaN"
| "js_add _ NaN = NaN"
| "js_add PInf NInf = NaN"
| "js_add NInf PInf = NaN"
| "js_add PInf _ = PInf"
| "js_add NInf _ = NInf"
| "js_add _ PInf = PInf"
| "js_add _ NInf = NInf"

definition js_sub :: "jsnum \<Rightarrow> jsnum \<Rightarrow> jsnum" where
  "js_sub a b = js_add a (js_neg b)"

fun js_mul :: "jsnum \<Rightarrow> jsnum \<Rightarrow> jsnum" where
  "js_mul (Num a) (Num b) = Num (a * b)"
| "js_mul NaN _ = NaN"
| "js_mul _ NaN = NaN"
| "js_mul PInf (Num b) = (if b = 0 then NaN else if 0 < b then PInf else NInf)"
| "js_mul NInf (Num b) = (if b = 0 then NaN else if 0 < b then NInf else PInf)"
| "js_mul (Num a) PInf = (if a = 0 then NaN else if 0 < a then PInf else NInf)"
| "js_mul (Num a) NInf = (if a = 0 then NaN else if 0 < a then NInf else PInf)"
| "js_mul PInf PInf = PInf"
| "js_mul PInf NInf = NInf"
| "js_mul NInf PInf = NInf"
| "js_mul NInf NInf = PInf"

fun js_div :: "jsnum \<Rightarrow> jsnum \<Rightarrow> jsnum" where
  "js_div (Num a) (Num b) =
     (if b = 0 then (if a = 0 then NaN else if 0 < a then PInf else NInf)
      else Num (a / b))"
| "js_div NaN _ = NaN"
| "js_div _ NaN = NaN"
| "js_div (Num a) PInf = Num 0"
| "js_div (Num a) NInf = Num 0"
| "js_div PInf (Num b) = (if 0 \<le> b then PInf else NInf)"
| "js_div NInf (Num b) = (if 0 \<le> b then NInf else PInf)"
| "js_div PInf PInf = NaN"
| "js_div PInf NInf = NaN"
| "js_div NInf PInf = NaN"
| "js_div NInf NInf = NaN"

text \<open>The comparison \<open>a < b\<close>; every comparison with \<open>NaN\<close> is false.\<close>

fun js_lt :: "jsnum \<Rightarrow> jsnum \<Rightarrow> bool" where
  "js_lt (Num a) (Num b) = (a < b)"
| "js_lt NaN _ = False"
| "js_lt _ NaN = False"
| "js_lt PInf _ = False"
| "js_lt _ NInf = False"
| "js_lt NInf _ = True"
| "js_lt _ PInf = True"

definition js_le :: "jsnum \<Rightarrow> jsnum \<Rightarrow> bool" where
  "js_le a b = (a = b \<or> js_lt a b)"

fun Math_max :: "jsnum \<Rightarrow> jsnum \<Rightarrow> jsnum" where
  "Math_max NaN _ = NaN"
| "Math_max _ NaN = NaN"
| "Math_max a b = (if js_lt a b then b else a)"

fun Math_min :: "jsnum \<Rightarrow> jsnum \<Rightarrow> jsnum" where
  "Math_min NaN _ = NaN"
| "Math_min _ NaN = NaN"
| "Math_min a b = (if js_lt b a then b else a)"

fun Math_floor :: "jsnum \<Rightarrow> jsnum" where
  "Math_floor (Num a) = Num (of_int \<lfloor>a\<rfloor>)"
| "Math_floor v = v"

fun Math_abs :: "jsnum \<Rightarrow> jsnum" where
  "Math_abs (Num a) = Num \<bar>a\<bar>"
| "Math_abs NaN = NaN"
| "Math_abs _ = PInf"

text \<open>\<open>Math.pow\<close> with the exponent a natural number, as the source uses it.\<close>

fun Math_pow :: "jsnum \<Rightarrow> nat \<Rightarrow> jsnum" where
  "Math_pow v 0 = Num 1"
| "Math_pow (Num a) n = Num (a ^ n)"
| "Math_pow NaN n = NaN"
| "Math_pow PInf n = PInf"
| "Math_pow NInf n = (if odd n then NInf else PInf)"

definition MAX_SAFE_INTEGER :: jsnum where
  "MAX_SAFE_INTEGER = Num (2 ^ 53 - 1)"

definition MIN_SAFE_INTEGER :: jsnum where
  "MIN_SAFE_INTEGER = Num (- (2 ^ 53 - 1))"

text \<open>
  A failed run: \<open>RangeError\<close> is the exception of an array allocation with an invalid
  length, \<open>NeverReturns\<close> a counting loop whose bound is \<open>Infinity\<close>.
\<close>

datatype failure = RangeError | NeverReturns

text \<open>
  The indices that \<^verbatim>\<open>for (let i = 0; i < bound; i++)\<close> visits: the naturals below the
  bound, none when the bound is \<open>NaN\<close>, and no end when it is \<open>Infinity\<close>.
\<close>

fun for_range :: "jsnum \<Rightarrow> failure + nat list" where
  "for_range (Num r) = Inr [0..<nat \<lceil>r\<rceil>]"
| "for_range PInf = Inl NeverReturns"
| "for_range NInf = Inr []"
| "for_range NaN = Inr []"

section \<open>Utilities\<close>

definition inverseLerp :: "jsnum \<Rightarrow> jsnum \<Rightarrow> jsnum \<Rightarrow> jsnum" where
  "inverseLerp min' max' value =
     (let value = Math_max min' (Math_min max' value)
      in js_div (js_sub value min') (js_sub max' min'))"

text \<open>
  \<^verbatim>\<open>Array.from({ length: size })\<close>: the length is \<open>ToLength(size)\<close> (\<open>NaN\<close> and
  negative numbers give 0, a fraction is truncated), and an array of more than
  \<open>2^32 - 1\<close> elements is refused with a \<open>RangeError\<close>.
\<close>

fun array_length :: "jsnum \<Rightarrow> failure + nat" where
  "array_length (Num r) =
     (if r < 1 then Inr 0
      else if 2 ^ 32 - 1 < \<lfloor>r\<rfloor> then Inl RangeError
      else Inr (nat \<lfloor>r\<rfloor>))"
| "array_length PInf = Inl RangeError"
| "array_length NInf = Inr 0"
| "array_length NaN = Inr 0"

definition createEmptyMatrix :: "jsnum \<Rightarrow> failure + jsnum list list" where
  "createEmptyMatrix size' =
     (case array_length size' of
        Inl e \<Rightarrow> Inl e
      | Inr n \<Rightarrow> Inr (replicate n (replicate n (Num 0))))"

text \<open>
  \<^verbatim>\<open>new Float32Array(length)\<close>: the length is \<open>ToIndex(length)\<close> (\<open>NaN\<close> gives 0, a
  fraction is truncated towards zero), and a negative or infinite length, or one above
  \<open>2^53 - 1\<close>, is refused with a \<open>RangeError\<close>. Memory is not bounded.
\<close>

fun Float32Array_length :: "jsnum \<Rightarrow> failure + nat" where
  "Float32Array_length (Num r) =
     (if r \<le> - 1 then Inl RangeError
      else if 2 ^ 53 - 1 < \<lfloor>r\<rfloor> then Inl RangeError
      else Inr (nat \<lfloor>r\<rfloor>))"
| "Float32Array_length PInf = Inl RangeError"
| "Float32Array_length NInf = Inl RangeError"
| "Float32Array_length NaN = Inr 0"


section \<open>The terrain of chunks (first variant of the source)\<close>

text \<open>
  The configuration object: \<open>DEFAULT_CONFIG\<close>, \<open>CONFIG\<close> and the constructor's
  argument. Its numbers are finite (what the control panel edits and JSON carries).
  The field \<open>size\<close> of the source is \<open>size'\<close> here.
\<close>

record config =
  size' :: real
  chunkSize :: real
  resolution :: real
  octaves :: real
  persistance :: real
  lacunarity :: real
  heightMultiplier :: real
  islands :: bool
  wireframe :: bool

definition DEFAULT_CONFIG :: config where
  "DEFAULT_CONFIG =
     \<lparr> size' = 3, chunkSize = 512, resolution = 22, octaves = 6, persistance = 707 / 1000,
       lacunarity = 17 / 10, heightMultiplier = 250, islands = False, wireframe = False \<rparr>"

text \<open>
  The external noise library: \<open>noise.seed(s)\<close> selects a noise field and
  \<open>noise.simplex2(x, z)\<close> samples the selected one. The library is a parameter of the
  model, a function of the seed and the coordinates. \<open>Noise.get\<close> reads the field that
  the last \<open>noise.seed\<close> call selected; at most one terrain is alive in the program, so
  that is the seed its own \<open>Noise\<close> object drew.
\<close>

type_synonym noiselib = "real \<Rightarrow> jsnum \<Rightarrow> jsnum \<Rightarrow> jsnum"

record Noise =
  seed :: real

text \<open>The argument is the value of \<^verbatim>\<open>Math.floor(Math.random() * 100000)\<close>.\<close>

definition Noise_constructor :: "real \<Rightarrow> Noise" where
  "Noise_constructor random_seed = \<lparr> seed = random_seed \<rparr>"

definition Noise_get :: "noiselib \<Rightarrow> Noise \<Rightarrow> jsnum \<Rightarrow> jsnum \<Rightarrow> jsnum" where
  "Noise_get lib this x z =
     (let value = lib (seed this) x z
      in js_div (js_add value (Num 1)) (Num 2))"

text \<open>
  A chunk keeps what its constructor stores and the grid it computes. Its mesh belongs
  to the rendering library and is not stored; the colour and the elevation that
  \<open>createMesh\<close> derives from a height are the functions \<open>Chunk_color\<close> and
  \<open>Chunk_elevation\<close> below. An offset \<open>{x, z}\<close> is the pair \<open>(x, z)\<close>.
\<close>

record chunk =
  chunk_size :: real
  chunk_offset :: "real \<times> real"
  chunk_resolution :: real
  chunk_heightMultiplier :: real
  chunk_islands :: bool
  chunk_wireframe :: bool
  grid :: "jsnum list list"

text \<open>
  The terrain object: the configuration fields, the chunks, the noise object and the
  running extremes. The scene is the rendering library's and is left out.
\<close>

record terrain = config +
  chunks :: "chunk list"
  noise :: Noise
  minHeight :: jsnum
  maxHeight :: jsnum

definition Terrain_constructor :: "config \<Rightarrow> real \<Rightarrow> terrain" where
  "Terrain_constructor c random_seed =
     \<lparr> size' = size' c, chunkSize = chunkSize c, resolution = resolution c,
       octaves = octaves c, persistance = persistance c, lacunarity = lacunarity c,
       heightMultiplier = heightMultiplier c, islands = islands c, wireframe = wireframe c,
       chunks = [], noise = Noise_constructor random_seed,
       minHeight = MAX_SAFE_INTEGER, maxHeight = MIN_SAFE_INTEGER \<rparr>"

text \<open>
  The octave loop of \<open>getHeight\<close>: \<open>n\<close> iterations are left, the state is the
  amplitude, the frequency and the accumulated \<open>noiseHeight\<close>.
\<close>

fun octave_loop ::
  "(jsnum \<Rightarrow> jsnum \<Rightarrow> jsnum) \<Rightarrow> real \<Rightarrow> real \<Rightarrow> jsnum \<times> jsnum \<Rightarrow> nat \<Rightarrow>
   jsnum \<Rightarrow> jsnum \<Rightarrow> jsnum \<Rightarrow> jsnum" where
  "octave_loop get p l pos 0 amplitude frequency noiseHeight = noiseHeight"
| "octave_loop get p l pos (Suc n) amplitude frequency noiseHeight =
     (let value = get (js_mul (fst pos) frequency) (js_mul (snd pos) frequency)
      in octave_loop get p l pos n
           (js_mul amplitude (Num p)) (js_mul frequency (Num l))
           (js_add noiseHeight (js_mul value amplitude)))"

text \<open>The local \<open>noisePosition\<close> of \<open>getHeight\<close>, as the pair \<open>(x, z)\<close>.\<close>

definition Terrain_noisePosition ::
  "'a terrain_scheme \<Rightarrow> real \<times> real \<Rightarrow> real \<times> real \<Rightarrow> jsnum \<times> jsnum" where
  "Terrain_noisePosition this pos offset =
     (let terrainWidth = js_mul (Num (size' this)) (Num (chunkSize this));
          gridSize = Math_floor (js_div (Num (chunkSize this)) (Num (resolution this)))
      in (js_div (js_add (js_mul (Num (fst pos)) gridSize) (Num (fst offset))) terrainWidth,
          js_div (js_add (js_mul (Num (snd pos)) gridSize) (Num (snd offset))) terrainWidth))"

text \<open>The value of \<open>noiseHeight\<close> after the octave loop: the raw fractal height.\<close>

definition Terrain_rawHeight ::
  "noiselib \<Rightarrow> 'a terrain_scheme \<Rightarrow> real \<times> real \<Rightarrow> real \<times> real \<Rightarrow> jsnum" where
  "Terrain_rawHeight lib this pos offset =
     octave_loop (Noise_get lib (noise this)) (persistance this) (lacunarity this)
       (Terrain_noisePosition this pos offset) (nat \<lceil>octaves this\<rceil>) (Num 1) (Num 1) (Num 0)"

text \<open>\<open>getHeight\<close> returns the normalized height and the terrain with its extremes updated.\<close>

definition Terrain_getHeight ::
  "noiselib \<Rightarrow> 'a terrain_scheme \<Rightarrow> real \<times> real \<Rightarrow> real \<times> real \<Rightarrow> jsnum \<times> 'a terrain_scheme" where
  "Terrain_getHeight lib this pos offset =
     (let noiseHeight = Terrain_rawHeight lib this pos offset;
          this = (if js_lt noiseHeight (minHeight this)
                  then this\<lparr>minHeight := noiseHeight\<rparr> else this);
          this = (if js_lt (maxHeight this) noiseHeight
                  then this\<lparr>maxHeight := noiseHeight\<rparr> else this)
      in (inverseLerp (minHeight this) (maxHeight this) noiseHeight, this))"

definition Terrain_destroy :: "terrain \<Rightarrow> terrain" where
  "Terrain_destroy this = this\<lparr>chunks := []\<rparr>"

definition Terrain_update :: "terrain \<Rightarrow> config \<Rightarrow> terrain" where
  "Terrain_update this c =
     this\<lparr> size' := size' c, chunkSize := chunkSize c, resolution := resolution c,
       octaves := octaves c, persistance := persistance c, lacunarity := lacunarity c,
       heightMultiplier := heightMultiplier c, islands := islands c,
       wireframe := wireframe c \<rparr>"

text \<open>
  \<open>hash\<close> serializes the nine configuration fields in the order of \<open>CONFIG\<close>'s keys,
  so two hashes are equal strings exactly when the fields are equal: the hash is
  modelled as the configuration itself.
\<close>

definition Terrain_hash :: "terrain \<Rightarrow> config" where
  "Terrain_hash this = config.truncate this"

subsection \<open>Chunks\<close>

fun createGrid_x_loop ::
  "noiselib \<Rightarrow> real \<times> real \<Rightarrow> nat \<Rightarrow> nat list \<Rightarrow> jsnum list list \<times> terrain \<Rightarrow>
   jsnum list list \<times> terrain" where
  "createGrid_x_loop lib offset z [] (grid', t) = (grid', t)"
| "createGrid_x_loop lib offset z (x # xs) (grid', t) =
     (let (height, t') = Terrain_getHeight lib t (real x, real z) offset
      in createGrid_x_loop lib offset z xs (grid'[z := (grid' ! z)[x := height]], t'))"

fun createGrid_z_loop ::
  "noiselib \<Rightarrow> real \<times> real \<Rightarrow> nat list \<Rightarrow> nat list \<Rightarrow> jsnum list list \<times> terrain \<Rightarrow>
   jsnum list list \<times> terrain" where
  "createGrid_z_loop lib offset [] xs (grid', t) = (grid', t)"
| "createGrid_z_loop lib offset (z # zs) xs (grid', t) =
     createGrid_z_loop lib offset zs xs (createGrid_x_loop lib offset z xs (grid', t))"

text \<open>
  \<open>createGrid\<close> of a chunk of the given size, resolution and offset, whose \<open>getHeight\<close>
  is bound to the terrain \<open>t\<close>: the grid and the terrain after the calls.
\<close>

definition Chunk_createGrid ::
  "noiselib \<Rightarrow> terrain \<Rightarrow> real \<Rightarrow> real \<Rightarrow> real \<times> real \<Rightarrow>
   failure + jsnum list list \<times> terrain" where
  "Chunk_createGrid lib t size_arg resolution_arg offset =
     (let gridSize = Math_floor (js_div (Num size_arg) (Num resolution_arg))
      in case createEmptyMatrix gridSize of
           Inl e \<Rightarrow> Inl e
         | Inr grid' \<Rightarrow>
             (case for_range gridSize of
                Inl e \<Rightarrow> Inl e
              | Inr idx \<Rightarrow> Inr (createGrid_z_loop lib offset idx idx (grid', t))))"

text \<open>
  \<open>createMesh\<close> of a chunk of the given size and resolution. The mesh itself is the
  rendering library's; the model keeps whether \<open>createMesh\<close> returns: it allocates the
  colour array \<^verbatim>\<open>new Float32Array(gridSize * gridSize * 3)\<close>, which throws for a grid size
  of \<open>-Infinity\<close>, and the calls into the rendering library are taken to return.
\<close>

definition Chunk_createMesh :: "real \<Rightarrow> real \<Rightarrow> failure + unit" where
  "Chunk_createMesh size_arg resolution_arg =
     (let gridSize = Math_floor (js_div (Num size_arg) (Num resolution_arg))
      in case Float32Array_length (js_mul (js_mul gridSize gridSize) (Num 3)) of
           Inl e \<Rightarrow> Inl e
         | Inr n \<Rightarrow> Inr ())"

text \<open>The constructor stores its arguments, then runs \<open>createGrid\<close> and \<open>createMesh\<close>.\<close>

definition Chunk_constructor ::
  "noiselib \<Rightarrow> terrain \<Rightarrow> real \<Rightarrow> real \<times> real \<Rightarrow> real \<Rightarrow> real \<Rightarrow> bool \<Rightarrow> bool \<Rightarrow>
   failure + chunk \<times> terrain" where
  "Chunk_constructor lib t size_arg offset resolution_arg heightMultiplier_arg islands_arg
     wireframe_arg =
     (case Chunk_createGrid lib t size_arg resolution_arg offset of
        Inl e \<Rightarrow> Inl e
      | Inr (g, t') \<Rightarrow>
          (case Chunk_createMesh size_arg resolution_arg of
             Inl e \<Rightarrow> Inl e
           | Inr mesh \<Rightarrow>
               Inr (\<lparr> chunk_size = size_arg, chunk_offset = offset,
                      chunk_resolution = resolution_arg,
                      chunk_heightMultiplier = heightMultiplier_arg,
                      chunk_islands = islands_arg, chunk_wireframe = wireframe_arg,
                      grid = g \<rparr>, t')))"

datatype color = water | sand | grass | rock | snow

text \<open>The colour and the elevation that \<open>createMesh\<close> gives a vertex of height \<open>height\<close>.\<close>

definition Chunk_color :: "jsnum \<Rightarrow> color" where
  "Chunk_color height =
     (if js_lt height (Num (45 / 100)) then water
      else if js_lt height (Num (5 / 10)) then sand
      else if js_lt height (Num (7 / 10)) then grass
      else if js_lt height (Num (9 / 10)) then rock
      else snow)"

definition Chunk_elevation :: "real \<Rightarrow> jsnum \<Rightarrow> jsnum" where
  "Chunk_elevation heightMultiplier_arg height =
     js_mul (if js_lt height (Num (49 / 100)) then Num (49 / 100) else height)
       (Num heightMultiplier_arg)"

subsection \<open>Building the terrain\<close>

definition Terrain_addChunk :: "terrain \<Rightarrow> chunk \<Rightarrow> terrain" where
  "Terrain_addChunk this c = this\<lparr>chunks := chunks this @ [c]\<rparr>"

fun create_x_loop :: "noiselib \<Rightarrow> nat \<Rightarrow> nat list \<Rightarrow> terrain \<Rightarrow> failure + terrain" where
  "create_x_loop lib z [] t = Inr t"
| "create_x_loop lib z (x # xs) t =
     (case Chunk_constructor lib t (chunkSize t)
             (real x * chunkSize t, real z * chunkSize t) (resolution t)
             (heightMultiplier t) (islands t) (wireframe t) of
        Inl e \<Rightarrow> Inl e
      | Inr (c, t') \<Rightarrow> create_x_loop lib z xs (Terrain_addChunk t' c))"

fun create_z_loop :: "noiselib \<Rightarrow> nat list \<Rightarrow> nat list \<Rightarrow> terrain \<Rightarrow> failure + terrain" where
  "create_z_loop lib [] xs t = Inr t"
| "create_z_loop lib (z # zs) xs t =
     (case create_x_loop lib z xs t of
        Inl e \<Rightarrow> Inl e
      | Inr t' \<Rightarrow> create_z_loop lib zs xs t')"

definition Terrain_create :: "noiselib \<Rightarrow> terrain \<Rightarrow> failure + terrain" where
  "Terrain_create lib this =
     (let idx = [0..<nat \<lceil>size' this\<rceil>] in create_z_loop lib idx idx this)"

text \<open>
  One frame of \<open>animate\<close>, the rendering apart: when the hash of the terrain differs
  from the serialized \<open>CONFIG\<close>, the terrain is destroyed, updated and created again.
\<close>

definition animate :: "noiselib \<Rightarrow> config \<Rightarrow> terrain \<Rightarrow> failure + terrain" where
  "animate lib CONFIG t =
     (if Terrain_hash t \<noteq> CONFIG
      then Terrain_create lib (Terrain_update (Terrain_destroy t) CONFIG)
      else Inr t)"

text \<open>
  The button \<open>Generate new seed\<close>: the terrain is destroyed and replaced by a newly
  constructed one, which is then created.
\<close>

definition generate_new_seed :: "noiselib \<Rightarrow> config \<Rightarrow> real \<Rightarrow> terrain \<Rightarrow> failure + terrain" where
  "generate_new_seed lib CONFIG random_seed t =
     (let old = Terrain_destroy t
      in Terrain_create lib (Terrain_constructor CONFIG random_seed))"


section \<open>The second variant of the terrain\<close>

text \<open>
  The second variant has the same classes and fields. Its \<open>getHeight\<close> takes the two
  coordinates and scales them by the cell size, its \<open>Noise.getNoise\<close> has the body of
  \<open>Noise.get\<close>, and its mesh uses another water level. These are the parts modelled.
\<close>

definition Terrain2_getHeight ::
  "noiselib \<Rightarrow> 'a terrain_scheme \<Rightarrow> real \<Rightarrow> real \<Rightarrow> jsnum \<times> 'a terrain_scheme" where
  "Terrain2_getHeight lib this x z =
     (let terrainWidth = js_mul (Num (size' this)) (Num (chunkSize this));
          normalX = js_div (Num x) terrainWidth;
          normalZ = js_div (Num z) terrainWidth;
          cellSize = js_div (Num (chunkSize this)) (Num (resolution this));
          noiseHeight =
            octave_loop (Noise_get lib (noise this)) (persistance this) (lacunarity this)
              (js_mul normalX cellSize, js_mul normalZ cellSize)
              (nat \<lceil>octaves this\<rceil>) (Num 1) (Num 1) (Num 0);
          this = (if js_lt noiseHeight (minHeight this)
                  then this\<lparr>minHeight := noiseHeight\<rparr> else this);
          this = (if js_lt (maxHeight this) noiseHeight
                  then this\<lparr>maxHeight := noiseHeight\<rparr> else this)
      in (inverseLerp (minHeight this) (maxHeight this) noiseHeight, this))"

definition Chunk2_color :: "jsnum \<Rightarrow> color" where
  "Chunk2_color height =
     (if js_lt height (Num (35 / 100)) then water
      else if js_lt height (Num (5 / 10)) then sand
      else if js_lt height (Num (7 / 10)) then grass
      else if js_lt height (Num (9 / 10)) then rock
      else snow)"

definition Chunk2_elevation :: "real \<Rightarrow> jsnum \<Rightarrow> jsnum" where
  "Chunk2_elevation heightMultiplier_arg height =
     js_mul (if js_lt height (Num (35 / 100)) then Num (35 / 100) else height)
       (Num heightMultiplier_arg)"

section \<open>The falloff mask\<close>

text \<open>
  \<open>createIslandShapeGrid\<close> of the first variant and \<open>createFalloffMap\<close> of the map
  generator have the same body, the first over its argument and the second over
  \<open>this.rows\<close>. \<open>evaluate\<close> is the function nested in both. The model computes the
  coordinates and the curve in exact arithmetic; the doubles of the program round them,
  so that two cells whose exact coordinates are mirror images can hold values that
  differ in the last place. No statement below rests on such an equality.
\<close>

definition evaluate :: "jsnum \<Rightarrow> jsnum" where
  "evaluate value =
     (let a = 3; b = Num (22 / 10)
      in js_div (Math_pow value a)
           (js_add (Math_pow value a) (Math_pow (js_sub b (js_mul b value)) a)))"

definition islandShape_cell :: "jsnum \<Rightarrow> nat \<Rightarrow> nat \<Rightarrow> jsnum" where
  "islandShape_cell size_arg i j =
     (let x = js_sub (js_mul (js_div (Num (real i)) size_arg) (Num 2)) (Num 1);
          y = js_sub (js_mul (js_div (Num (real j)) size_arg) (Num 2)) (Num 1);
          value = Math_max (Math_abs x) (Math_abs y)
      in evaluate value)"

fun islandShape_i_loop :: "jsnum \<Rightarrow> nat list \<Rightarrow> failure + jsnum list list" where
  "islandShape_i_loop size_arg [] = Inr []"
| "islandShape_i_loop size_arg (i # is) =
     (case for_range size_arg of
        Inl e \<Rightarrow> Inl e
      | Inr js \<Rightarrow>
          (case islandShape_i_loop size_arg is of
             Inl e \<Rightarrow> Inl e
           | Inr rest \<Rightarrow> Inr (map (islandShape_cell size_arg i) js # rest)))"


section \<open>The map generator (third variant of the source)\<close>

text \<open>
  The fields of the map generator carry the prefix \<open>mg_\<close>; an offset \<open>{x, y}\<close> is
  the pair \<open>(x, y)\<close>. The noise library of this variant is \<open>perlin.get\<close>, a parameter.
\<close>

type_synonym perlinlib = "jsnum \<Rightarrow> jsnum \<Rightarrow> jsnum"

record mapgen_config =
  mg_width :: real
  mg_height :: real
  mg_cellSize :: real
  mg_octaves :: real
  mg_persistance :: real
  mg_lacunarity :: real
  mg_heightLimit :: real
  mg_falloff :: bool
  mg_wireframe :: bool

record mapgen = mapgen_config +
  mg_offset :: "real \<times> real"
  mg_columns :: jsnum
  mg_rows :: jsnum
  mg_map :: "jsnum list list"
  mg_minHeight :: jsnum
  mg_maxHeight :: jsnum

definition MapGenerator_createFalloffMap :: "mapgen \<Rightarrow> failure + jsnum list list" where
  "MapGenerator_createFalloffMap this =
     (let size_local = mg_rows this
      in case for_range size_local of
           Inl e \<Rightarrow> Inl e
         | Inr is \<Rightarrow> islandShape_i_loop size_local is)"

text \<open>The value of \<open>noiseHeight\<close> after the octave loop of the cell \<open>(x, y)\<close>.\<close>

definition MapGenerator_rawHeight :: "perlinlib \<Rightarrow> mapgen \<Rightarrow> nat \<Rightarrow> nat \<Rightarrow> jsnum" where
  "MapGenerator_rawHeight perlin_get this x y =
     octave_loop (\<lambda>xPos yPos. js_div (js_add (perlin_get xPos yPos) (Num 1)) (Num 2))
       (mg_persistance this) (mg_lacunarity this)
       (js_add (js_sub (js_div (js_mul (Num (real x)) (Num (mg_cellSize this)))
                          (Num (mg_width this)))
                  (Num (fst (mg_offset this))))
          (js_div (Num (mg_width this)) (Num 2)),
        js_add (js_sub (js_div (js_mul (Num (real y)) (Num (mg_cellSize this)))
                          (Num (mg_height this)))
                  (Num (snd (mg_offset this))))
          (js_div (Num (mg_height this)) (Num 2)))
       (nat \<lceil>mg_octaves this\<rceil>) (Num 1) (Num 1) (Num 0)"

text \<open>
  \<open>falloffGrid[y][x]\<close>: an index past the end of the row reads \<open>undefined\<close>, which the
  subtraction turns into \<open>NaN\<close>. The row \<open>y\<close> exists, since the falloff grid has
  \<open>this.rows\<close> rows.
\<close>

definition falloff_at :: "jsnum list list \<Rightarrow> nat \<Rightarrow> nat \<Rightarrow> jsnum" where
  "falloff_at falloffGrid y x =
     (if y < length falloffGrid \<and> x < length (falloffGrid ! y)
      then falloffGrid ! y ! x else NaN)"

fun createMap_x_loop ::
  "perlinlib \<Rightarrow> jsnum list list \<Rightarrow> nat \<Rightarrow> nat list \<Rightarrow> jsnum list \<times> mapgen \<Rightarrow>
   jsnum list \<times> mapgen" where
  "createMap_x_loop perlin_get falloffGrid y [] (row, this) = (row, this)"
| "createMap_x_loop perlin_get falloffGrid y (x # xs) (row, this) =
     (let noiseHeight = MapGenerator_rawHeight perlin_get this x y;
          this = (if js_lt noiseHeight (mg_minHeight this)
                  then this\<lparr>mg_minHeight := noiseHeight\<rparr> else this);
          this = (if js_lt (mg_maxHeight this) noiseHeight
                  then this\<lparr>mg_maxHeight := noiseHeight\<rparr> else this);
          cell = noiseHeight;
          cell = (if mg_falloff this then js_sub cell (falloff_at falloffGrid y x) else cell)
      in createMap_x_loop perlin_get falloffGrid y xs (row @ [cell], this))"

fun createMap_y_loop ::
  "perlinlib \<Rightarrow> jsnum list list \<Rightarrow> nat list \<Rightarrow> jsnum list list \<times> mapgen \<Rightarrow>
   failure + jsnum list list \<times> mapgen" where
  "createMap_y_loop perlin_get falloffGrid [] (grid', this) = Inr (grid', this)"
| "createMap_y_loop perlin_get falloffGrid (y # ys) (grid', this) =
     (case for_range (mg_columns this) of
        Inl e \<Rightarrow> Inl e
      | Inr xs \<Rightarrow>
          (let (row, this') = createMap_x_loop perlin_get falloffGrid y xs ([], this)
           in createMap_y_loop perlin_get falloffGrid ys (grid' @ [row], this')))"

text \<open>
  \<open>createMap\<close>: the falloff grid (the empty list stands for \<open>null\<close>, which is never
  indexed), the first pass over the cells, and the second pass that normalizes every
  cell with the extremes the first pass has left.
\<close>

definition MapGenerator_createMap ::
  "perlinlib \<Rightarrow> mapgen \<Rightarrow> failure + jsnum list list \<times> mapgen" where
  "MapGenerator_createMap perlin_get this =
     (case (if mg_falloff this then MapGenerator_createFalloffMap this else Inr []) of
        Inl e \<Rightarrow> Inl e
      | Inr falloffGrid \<Rightarrow>
          (case for_range (mg_rows this) of
             Inl e \<Rightarrow> Inl e
           | Inr ys \<Rightarrow>
               (case createMap_y_loop perlin_get falloffGrid ys ([], this) of
                  Inl e \<Rightarrow> Inl e
                | Inr (grid', this') \<Rightarrow>
                    Inr (map (map (inverseLerp (mg_minHeight this') (mg_maxHeight this')))
                           grid', this'))))"

text \<open>
  \<open>createMesh\<close> of the map generator, kept as for the chunk: it allocates
  \<^verbatim>\<open>new Float32Array(this.rows * this.columns * 3)\<close>, which throws for a negative or
  infinite product.
\<close>

definition MapGenerator_createMesh :: "mapgen \<Rightarrow> failure + unit" where
  "MapGenerator_createMesh this =
     (case Float32Array_length (js_mul (js_mul (mg_rows this) (mg_columns this)) (Num 3)) of
        Inl e \<Rightarrow> Inl e
      | Inr n \<Rightarrow> Inr ())"

definition MapGenerator_constructor ::
  "perlinlib \<Rightarrow> mapgen_config \<Rightarrow> real \<times> real \<Rightarrow> failure + mapgen" where
  "MapGenerator_constructor perlin_get c offset =
     (let this =
        \<lparr> mg_width = mg_width c, mg_height = mg_height c, mg_cellSize = mg_cellSize c,
          mg_octaves = mg_octaves c, mg_persistance = mg_persistance c,
          mg_lacunarity = mg_lacunarity c, mg_heightLimit = mg_heightLimit c,
          mg_falloff = mg_falloff c, mg_wireframe = mg_wireframe c,
          mg_offset = offset,
          mg_columns = Math_floor (js_div (Num (mg_width c)) (Num (mg_cellSize c))),
          mg_rows = Math_floor (js_div (Num (mg_height c)) (Num (mg_cellSize c))),
          mg_map = [],
          mg_minHeight = MAX_SAFE_INTEGER, mg_maxHeight = MIN_SAFE_INTEGER \<rparr>
      in case MapGenerator_createMap perlin_get this of
           Inl e \<Rightarrow> Inl e
         | Inr (m, this') \<Rightarrow>
             (case MapGenerator_createMesh (this'\<lparr>mg_map := m\<rparr>) of
                Inl e \<Rightarrow> Inl e
              | Inr mesh \<Rightarrow> Inr (this'\<lparr>mg_map := m\<rparr>)))"

text \<open>The colour that \<open>createMesh\<close> of the map generator gives a height.\<close>

definition MapGenerator_color :: "jsnum \<Rightarrow> color" where
  "MapGenerator_color height =
     (if js_lt height (Num (45 / 100)) then water
      else if js_lt height (Num (5 / 10)) then sand
      else if js_lt height (Num (7 / 10)) then grass
      else if js_lt height (Num (9 / 10)) then rock
      else snow)"

section \<open>Runs of the program\<close>

text \<open>
  The terrain part of \<open>main\<close>: the terrain is constructed and created. Then the frames
  of \<open>animate\<close>, one for each value that \<open>CONFIG\<close> has when a frame runs.
\<close>

definition main :: "noiselib \<Rightarrow> config \<Rightarrow> real \<Rightarrow> failure + terrain" where
  "main lib CONFIG random_seed = Terrain_create lib (Terrain_constructor CONFIG random_seed)"

fun animate_frames :: "noiselib \<Rightarrow> config list \<Rightarrow> terrain \<Rightarrow> failure + terrain" where
  "animate_frames lib [] t = Inr t"
| "animate_frames lib (CONFIG # later) t =
     (case animate lib CONFIG t of
        Inl e \<Rightarrow> Inl e
      | Inr t' \<Rightarrow> animate_frames lib later t')"

text \<open>The terrain after a sequence of \<open>getHeight\<close> calls, and the heights they return.\<close>

fun getHeight_calls ::
  "noiselib \<Rightarrow> 'a terrain_scheme \<Rightarrow> ((real \<times> real) \<times> (real \<times> real)) list \<Rightarrow>
   jsnum list \<times> 'a terrain_scheme" where
  "getHeight_calls lib t [] = ([], t)"
| "getHeight_calls lib t ((pos, offset) # cs) =
     (let (h, t') = Terrain_getHeight lib t pos offset;
          (hs, t'') = getHeight_calls lib t' cs
      in (h # hs, t''))"

fun getHeight2_calls ::
  "noiselib \<Rightarrow> 'a terrain_scheme \<Rightarrow> (real \<times> real) list \<Rightarrow> jsnum list \<times> 'a terrain_scheme" where
  "getHeight2_calls lib t [] = ([], t)"
| "getHeight2_calls lib t ((x, z) # cs) =
     (let (h, t') = Terrain2_getHeight lib t x z;
          (hs, t'') = getHeight2_calls lib t' cs
      in (h # hs, t''))"

section \<open>Notions for the statements\<close>

text \<open>The height grids of the terrain's chunks.\<close>

definition Terrain_grids :: "terrain \<Rightarrow> jsnum list list list" where
  "Terrain_grids t = map grid (chunks t)"

text \<open>A finite number of the closed interval from 0 to 1.\<close>

definition in_unit_interval :: "jsnum \<Rightarrow> bool" where
  "in_unit_interval v = (case v of Num r \<Rightarrow> 0 \<le> r \<and> r \<le> 1 | _ \<Rightarrow> False)"

text \<open>The grid size that \<open>getHeight\<close> and \<open>createGrid\<close> compute.\<close>

definition gridSize_of :: "real \<Rightarrow> real \<Rightarrow> jsnum" where
  "gridSize_of chunkSize_arg resolution_arg =
     Math_floor (js_div (Num chunkSize_arg) (Num resolution_arg))"



text \<open>
  Two terrains agree on what a build reads: the six generation parameters, the seed
  and the running extremes. And the grids of the chunks that \<open>create\<close> adds to a terrain.
\<close>

definition same_generation :: "terrain \<Rightarrow> terrain \<Rightarrow> bool" where
  "same_generation t1 t2 =
     (size' t1 = size' t2 \<and> chunkSize t1 = chunkSize t2 \<and> resolution t1 = resolution t2 \<and>
      octaves t1 = octaves t2 \<and> persistance t1 = persistance t2 \<and>
      lacunarity t1 = lacunarity t2 \<and> seed (noise t1) = seed (noise t2) \<and>
      minHeight t1 = minHeight t2 \<and> maxHeight t1 = maxHeight t2)"

definition built_grids :: "noiselib \<Rightarrow> terrain \<Rightarrow> failure + jsnum list list list" where
  "built_grids lib t =
     map_sum id (\<lambda>t'. map grid (drop (length (chunks t)) (chunks t'))) (Terrain_create lib t)"

section \<open>Concrete inputs\<close>

text \<open>
  A noise field to run the model on: the ramp \<open>x - z\<close>, whatever the seed. The first
  octave samples it on the unit square, where its values lie in \<open>[-1, 1]\<close> as those of
  the library do.
\<close>

definition ramp_noise :: noiselib where
  "ramp_noise s x z = (case (x, z) of (Num a, Num b) \<Rightarrow> Num (a - b) | _ \<Rightarrow> NaN)"

definition ramp_perlin :: perlinlib where
  "ramp_perlin x y = (case (x, y) of (Num a, Num b) \<Rightarrow> Num (a - b) | _ \<Rightarrow> NaN)"

text \<open>One chunk of two by two cells, one octave.\<close>

definition small_config :: config where
  "small_config =
     \<lparr> size' = 1, chunkSize = 2, resolution = 1, octaves = 1, persistance = 1 / 2,
       lacunarity = 2, heightMultiplier = 250, islands = False, wireframe = False \<rparr>"

text \<open>A map generator of two by two cells with one octave, before \<open>createMap\<close> runs.\<close>

definition small_mapgen_config :: mapgen_config where
  "small_mapgen_config =
     \<lparr> mg_width = 2, mg_height = 2, mg_cellSize = 1, mg_octaves = 1, mg_persistance = 1 / 2,
       mg_lacunarity = 2, mg_heightLimit = 50, mg_falloff = False, mg_wireframe = False \<rparr>"

definition small_mapgen :: mapgen where
  "small_mapgen =
     \<lparr> mg_width = 2, mg_height = 2, mg_cellSize = 1, mg_octaves = 1, mg_persistance = 1 / 2,
       mg_lacunarity = 2, mg_heightLimit = 50, mg_falloff = False, mg_wireframe = False,
       mg_offset = (0, 0), mg_columns = Num 2, mg_rows = Num 2, mg_map = [],
       mg_minHeight = MAX_SAFE_INTEGER, mg_maxHeight = MIN_SAFE_INTEGER \<rparr>"

section \<open>Facts about the numbers\<close>

lemma js_lt_irrefl [simp]: "\<not> js_lt a a"
  by (cases a) simp_all

lemma js_lt_trans: "js_lt a b \<Longrightarrow> js_lt b c \<Longrightarrow> js_lt a c"
  by (cases a; cases b; cases c) simp_all

lemma js_le_refl [simp]: "js_le a a"
  by (simp add: js_le_def)

lemma js_le_trans: "js_le a b \<Longrightarrow> js_le b c \<Longrightarrow> js_le a c"
  unfolding js_le_def using js_lt_trans by blast

lemma js_le_Num [simp]: "js_le (Num a) (Num b) \<longleftrightarrow> a \<le> b"
  by (auto simp: js_le_def)

lemma inverseLerp_degenerate: "inverseLerp a a v = NaN"
  by (cases a; cases v) (simp_all add: inverseLerp_def js_sub_def)

lemma inverseLerp_Num:
  "a < b \<Longrightarrow> inverseLerp (Num a) (Num b) (Num v) = Num ((max a (min b v) - a) / (b - a))"
  by (auto simp: inverseLerp_def js_sub_def max_def min_def)

lemma inverseLerp_in_unit:
  assumes "a < b"
  shows "in_unit_interval (inverseLerp (Num a) (Num b) (Num v))"
proof -
  have "0 \<le> max a (min b v) - a" and "max a (min b v) - a \<le> b - a"
    using assms by (auto simp: max_def min_def)
  with assms show ?thesis
    by (simp add: inverseLerp_Num in_unit_interval_def)
qed

section \<open>The first sample of a terrain\<close>

lemma ramp_noise_Num [simp]: "ramp_noise s (Num a) (Num b) = Num (a - b)"
  by (simp add: ramp_noise_def)

lemma ramp_perlin_Num [simp]: "ramp_perlin (Num a) (Num b) = Num (a - b)"
  by (simp add: ramp_perlin_def)

lemma octave_loop_numeral:
  "octave_loop get p l pos (numeral k) amplitude frequency noiseHeight =
     octave_loop get p l pos (pred_numeral k)
       (js_mul amplitude (Num p)) (js_mul frequency (Num l))
       (js_add noiseHeight
          (js_mul (get (js_mul (fst pos) frequency) (js_mul (snd pos) frequency)) amplitude))"
  by (simp add: numeral_eq_Suc)

lemma replicate_numeral: "replicate (numeral k) x = x # replicate (pred_numeral k) x"
  by (simp add: numeral_eq_Suc)

lemmas terrain_eval =
  Terrain_create_def Chunk_constructor_def Chunk_createGrid_def Chunk_createMesh_def
  createEmptyMatrix_def
  Terrain_addChunk_def Terrain_getHeight_def Terrain_rawHeight_def Terrain_noisePosition_def
  Terrain_constructor_def Terrain_grids_def Noise_get_def Noise_constructor_def
  inverseLerp_def js_sub_def MAX_SAFE_INTEGER_def MIN_SAFE_INTEGER_def Let_def
  octave_loop_numeral replicate_numeral upt_conv_Cons

text \<open>
  C1. On the first \<open>getHeight\<close> call of a build both extremes have just been set to the
  accumulated value, and the claim wants the returned height to be 0. The code divides
  zero by zero: on a terrain whose extremes are the sentinels of the constructor, a call
  whose accumulated height \<open>h\<close> is a finite number between the sentinels sets both
  extremes to \<open>h\<close> and returns \<open>NaN\<close>.
\<close>

theorem first_getHeight_returns_NaN:
  assumes "minHeight t = MAX_SAFE_INTEGER" and "maxHeight t = MIN_SAFE_INTEGER"
    and "Terrain_rawHeight lib t pos offset = Num h"
    and "- (2 ^ 53 - 1) < h" and "h < 2 ^ 53 - 1"
  shows "fst (Terrain_getHeight lib t pos offset) = NaN \<and>
    minHeight (snd (Terrain_getHeight lib t pos offset)) = Num h \<and>
    maxHeight (snd (Terrain_getHeight lib t pos offset)) = Num h"
  using assms
  by (simp add: Terrain_getHeight_def Let_def MAX_SAFE_INTEGER_def MIN_SAFE_INTEGER_def
      inverseLerp_degenerate)

theorem first_getHeight_returns_NaN_witness:
  "fst (Terrain_getHeight ramp_noise (Terrain_constructor small_config 0) (0, 0) (0, 0)) = NaN \<and>
   minHeight (snd (Terrain_getHeight ramp_noise (Terrain_constructor small_config 0) (0, 0) (0, 0))) =
     Num (1 / 2) \<and>
   maxHeight (snd (Terrain_getHeight ramp_noise (Terrain_constructor small_config 0) (0, 0) (0, 0))) =
     Num (1 / 2)"
proof -
  have "minHeight (Terrain_constructor small_config 0) = MAX_SAFE_INTEGER"
    and "maxHeight (Terrain_constructor small_config 0) = MIN_SAFE_INTEGER"
    by (simp_all add: Terrain_constructor_def)
  moreover have "Terrain_rawHeight ramp_noise (Terrain_constructor small_config 0) (0, 0) (0, 0) =
      Num (1 / 2)"
    by (simp add: Terrain_rawHeight_def Terrain_noisePosition_def Terrain_constructor_def
        Noise_get_def Noise_constructor_def small_config_def Let_def)
  ultimately show ?thesis
    by (rule first_getHeight_returns_NaN) simp_all
qed

text \<open>The same on the default configuration, by running the call.\<close>

lemma default_first_height:
  "fst (Terrain_getHeight ramp_noise (Terrain_constructor DEFAULT_CONFIG 0) (0, 0) (0, 0)) = NaN"
  by (simp add: terrain_eval DEFAULT_CONFIG_def)

text \<open>
  C2. The claim wants every entry of every height grid in \<open>[0, 1]\<close>. The first entry
  of the first chunk of a build is \<open>NaN\<close>: here the whole build of the small
  configuration.
\<close>

theorem first_grid_entry_is_NaN:
  "map_sum id Terrain_grids (Terrain_create ramp_noise (Terrain_constructor small_config 0)) =
     Inr [[[NaN, Num 1], [Num 0, Num (1 / 2)]]] \<and> \<not> in_unit_interval NaN"
  by (simp add: terrain_eval small_config_def in_unit_interval_def)

section \<open>The running extremes only widen\<close>

lemma getHeight_minHeight:
  "minHeight (snd (Terrain_getHeight lib t pos offset)) =
     (if js_lt (Terrain_rawHeight lib t pos offset) (minHeight t)
      then Terrain_rawHeight lib t pos offset else minHeight t)"
  by (simp add: Terrain_getHeight_def Let_def)

lemma getHeight_maxHeight:
  "maxHeight (snd (Terrain_getHeight lib t pos offset)) =
     (if js_lt (maxHeight t) (Terrain_rawHeight lib t pos offset)
      then Terrain_rawHeight lib t pos offset else maxHeight t)"
  by (simp add: Terrain_getHeight_def Let_def)

lemma getHeight_widens:
  "js_le (minHeight (snd (Terrain_getHeight lib t pos offset))) (minHeight t)"
  "js_le (maxHeight t) (maxHeight (snd (Terrain_getHeight lib t pos offset)))"
  by (simp_all add: getHeight_minHeight getHeight_maxHeight js_le_def)

lemma getHeight2_widens:
  "js_le (minHeight (snd (Terrain2_getHeight lib t x z))) (minHeight t)"
  "js_le (maxHeight t) (maxHeight (snd (Terrain2_getHeight lib t x z)))"
  by (simp_all add: Terrain2_getHeight_def Let_def js_le_def)

lemma getHeight_calls_append:
  "snd (getHeight_calls lib t (cs @ ds)) =
     snd (getHeight_calls lib (snd (getHeight_calls lib t cs)) ds)"
  by (induction cs arbitrary: t) (auto simp: split_beta Let_def)

lemma getHeight2_calls_append:
  "snd (getHeight2_calls lib t (cs @ ds)) =
     snd (getHeight2_calls lib (snd (getHeight2_calls lib t cs)) ds)"
  by (induction cs arbitrary: t) (auto simp: split_beta Let_def)

lemma getHeight_calls_widen:
  "js_le (minHeight (snd (getHeight_calls lib t cs))) (minHeight t) \<and>
   js_le (maxHeight t) (maxHeight (snd (getHeight_calls lib t cs)))"
proof (induction cs arbitrary: t)
  case Nil
  show ?case by simp
next
  case (Cons c cs)
  obtain pos offset where c: "c = (pos, offset)" by (cases c)
  let ?t' = "snd (Terrain_getHeight lib t pos offset)"
  have step: "snd (getHeight_calls lib t (c # cs)) = snd (getHeight_calls lib ?t' cs)"
    by (simp add: c split_beta Let_def)
  from Cons.IH [of ?t'] getHeight_widens [where lib = lib and t = t and pos = pos and offset = offset]
  show ?case
    unfolding step by (blast intro: js_le_trans)
qed

lemma getHeight2_calls_widen:
  "js_le (minHeight (snd (getHeight2_calls lib t cs))) (minHeight t) \<and>
   js_le (maxHeight t) (maxHeight (snd (getHeight2_calls lib t cs)))"
proof (induction cs arbitrary: t)
  case Nil
  show ?case by simp
next
  case (Cons c cs)
  obtain x z where c: "c = (x, z)" by (cases c)
  let ?t' = "snd (Terrain2_getHeight lib t x z)"
  have step: "snd (getHeight2_calls lib t (c # cs)) = snd (getHeight2_calls lib ?t' cs)"
    by (simp add: c split_beta Let_def)
  from Cons.IH [of ?t'] getHeight2_widens [where lib = lib and t = t and x = x and z = z]
  show ?case
    unfolding step by (blast intro: js_le_trans)
qed

text \<open>
  C8. Across any sequence of \<open>getHeight\<close> calls the observed minimum never increases
  and the observed maximum never decreases: after the calls \<open>cs\<close> followed by the calls
  \<open>ds\<close> the minimum is at most, and the maximum at least, what it was after \<open>cs\<close>. So
  the range that normalizes an early height lies within the range of any later one.
  This holds for \<open>getHeight\<close> of the first and of the second variant.
\<close>

theorem extremes_only_widen:
  "js_le (minHeight (snd (getHeight_calls lib t (cs @ ds))))
         (minHeight (snd (getHeight_calls lib t cs))) \<and>
   js_le (maxHeight (snd (getHeight_calls lib t cs)))
         (maxHeight (snd (getHeight_calls lib t (cs @ ds)))) \<and>
   js_le (minHeight (snd (getHeight2_calls lib t (cs2 @ ds2))))
         (minHeight (snd (getHeight2_calls lib t cs2))) \<and>
   js_le (maxHeight (snd (getHeight2_calls lib t cs2)))
         (maxHeight (snd (getHeight2_calls lib t (cs2 @ ds2))))"
  using getHeight_calls_widen [where lib = lib and t = "snd (getHeight_calls lib t cs)" and cs = ds]
    getHeight2_calls_widen [where lib = lib and t = "snd (getHeight2_calls lib t cs2)" and cs = ds2]
  by (simp add: getHeight_calls_append getHeight2_calls_append)

section \<open>The grid loops leave the chunks alone\<close>

lemma getHeight_chunks: "chunks (snd (Terrain_getHeight lib t pos offset)) = chunks t"
  by (simp add: Terrain_getHeight_def Let_def)

lemma createGrid_x_loop_chunks:
  "chunks (snd (createGrid_x_loop lib offset z xs (g, t))) = chunks t"
  by (induction xs arbitrary: g t) (simp_all add: split_beta getHeight_chunks)

lemma createGrid_z_loop_chunks:
  "chunks (snd (createGrid_z_loop lib offset zs xs (g, t))) = chunks t"
proof (induction zs arbitrary: g t)
  case Nil
  show ?case by simp
next
  case (Cons z zs)
  obtain g' t' where r: "createGrid_x_loop lib offset z xs (g, t) = (g', t')"
    by (cases "createGrid_x_loop lib offset z xs (g, t)")
  have "chunks t' = chunks t"
    using createGrid_x_loop_chunks [of lib offset z xs g t] by (simp add: r)
  with Cons.IH [of g' t'] show ?case
    by (simp add: r)
qed

section \<open>Configurations are not validated\<close>

lemmas frame_eval =
  main_def animate_def Terrain_hash_def config.truncate_def Terrain_update_def
  Terrain_destroy_def small_config_def

text \<open>
  C10, as the claim states it, fails: a configuration with no octave and persistence 0,
  outside the documented ranges, is not rejected. The terrain is constructed, every cell
  is sampled (the extremes have moved to 0) and the build returns a grid.
\<close>

theorem out_of_range_config_is_built:
  "map_sum id (\<lambda>t. (Terrain_grids t, minHeight t, maxHeight t))
     (main ramp_noise (small_config\<lparr>octaves := 0, persistance := 0\<rparr>) 0) =
   Inr ([[[NaN, NaN], [NaN, NaN]]], Num 0, Num 0)"
  by (simp add: terrain_eval frame_eval)

text \<open>
  C10, amended. No configuration is rejected at construction. For every configuration,
  in or out of the documented ranges, the constructor stores the values as they are
  given and samples no height: the new terrain has the configuration as its hash, no
  chunk, and the extremes at their sentinels. The build that follows runs \<open>create\<close> on
  these values.
\<close>

theorem no_configuration_is_rejected:
  "Terrain_hash (Terrain_constructor c s) = c \<and>
   chunks (Terrain_constructor c s) = [] \<and>
   minHeight (Terrain_constructor c s) = MAX_SAFE_INTEGER \<and>
   maxHeight (Terrain_constructor c s) = MIN_SAFE_INTEGER \<and>
   main lib c s = Terrain_create lib (Terrain_constructor c s)"
  by (simp add: Terrain_hash_def config.truncate_def Terrain_constructor_def main_def)

text \<open>
  The model follows the program where the grid size is \<open>-Infinity\<close>: \<open>createGrid\<close> returns
  the empty grid and the colour array of \<open>createMesh\<close> cannot be allocated.
\<close>

lemma build_with_negative_infinite_grid:
  "main lib (small_config\<lparr>chunkSize := - 2, resolution := 0\<rparr>) s = Inl RangeError"
  by (simp add: terrain_eval frame_eval)

section \<open>The extremes across rebuilds\<close>

text \<open>
  C9, as the claim states it, fails. The sentinels are the finite numbers
  \<open>Number.MAX_SAFE_INTEGER\<close> and \<open>Number.MIN_SAFE_INTEGER\<close>, not the infinities. And when
  a configuration change makes \<open>animate\<close> rebuild the terrain, \<open>update\<close> keeps the
  extremes: after a first build of the small configuration, the rebuild for a changed
  \<open>wireframe\<close> flag starts sampling from the extremes 0 and 1 of the first build.
\<close>

theorem rebuild_starts_from_old_extremes:
  "map_sum id
     (\<lambda>t. (minHeight (Terrain_update (Terrain_destroy t) (small_config\<lparr>wireframe := True\<rparr>)),
           maxHeight (Terrain_update (Terrain_destroy t) (small_config\<lparr>wireframe := True\<rparr>))))
     (main ramp_noise small_config 0) = Inr (Num 0, Num 1) \<and>
   MAX_SAFE_INTEGER \<noteq> PInf \<and> MIN_SAFE_INTEGER \<noteq> NInf"
  by (simp add: terrain_eval frame_eval)

text \<open>
  C9, amended. The extremes are initialized when a terrain is constructed: a newly
  constructed terrain starts from the sentinels \<open>2^53 - 1\<close> for the minimum and
  \<open>-(2^53 - 1)\<close> for the maximum, whatever the configuration and the seed. The button
  \<open>Generate new seed\<close> tears the terrain down and constructs a new one, so its build
  starts from these sentinels and nothing of the previous terrain is carried over: the
  result does not depend on the terrain it replaces.
\<close>

theorem new_terrain_starts_from_sentinels:
  "minHeight (Terrain_constructor c s) = Num (2 ^ 53 - 1) \<and>
   maxHeight (Terrain_constructor c s) = Num (- (2 ^ 53 - 1)) \<and>
   generate_new_seed lib c s old = main lib c s \<and>
   generate_new_seed lib c s old = generate_new_seed lib c s old'"
  by (simp add: Terrain_constructor_def MAX_SAFE_INTEGER_def MIN_SAFE_INTEGER_def
      generate_new_seed_def main_def)

section \<open>What a build depends on\<close>

lemma rel_sum_eq_cases:
  assumes "rel_sum (=) R a b"
  shows "(\<exists>e. a = Inl e \<and> b = Inl e) \<or> (\<exists>r1 r2. a = Inr r1 \<and> b = Inr r2 \<and> R r1 r2)"
  using assms by (cases a; cases b) auto

lemma Noise_get_seed:
  assumes "seed n1 = seed n2"
  shows "Noise_get lib n1 = Noise_get lib n2"
  using assms by (intro ext) (simp add: Noise_get_def)

lemma rawHeight_same_generation:
  assumes "same_generation t1 t2"
  shows "Terrain_rawHeight lib t1 pos offset = Terrain_rawHeight lib t2 pos offset"
proof -
  from assms have e: "size' t1 = size' t2" "chunkSize t1 = chunkSize t2"
    "resolution t1 = resolution t2" "octaves t1 = octaves t2"
    "persistance t1 = persistance t2" "lacunarity t1 = lacunarity t2"
    and s: "seed (noise t1) = seed (noise t2)"
    by (simp_all add: same_generation_def)
  show ?thesis
    unfolding Terrain_rawHeight_def Terrain_noisePosition_def e Noise_get_seed [OF s] ..
qed

lemma getHeight_same_generation:
  assumes "same_generation t1 t2"
  shows "fst (Terrain_getHeight lib t1 pos offset) = fst (Terrain_getHeight lib t2 pos offset)"
    and "same_generation (snd (Terrain_getHeight lib t1 pos offset))
           (snd (Terrain_getHeight lib t2 pos offset))"
  using assms rawHeight_same_generation [OF assms, of lib pos offset]
  by (simp_all add: same_generation_def Terrain_getHeight_def Let_def)

lemma createGrid_x_loop_same_generation:
  assumes "same_generation t1 t2"
  shows "fst (createGrid_x_loop lib offset z xs (g, t1)) =
           fst (createGrid_x_loop lib offset z xs (g, t2)) \<and>
         same_generation (snd (createGrid_x_loop lib offset z xs (g, t1)))
           (snd (createGrid_x_loop lib offset z xs (g, t2)))"
  using assms
proof (induction xs arbitrary: g t1 t2)
  case Nil
  then show ?case by simp
next
  case (Cons x xs)
  from getHeight_same_generation [OF Cons.prems, of lib "(real x, real z)" offset]
    Cons.IH [of "snd (Terrain_getHeight lib t1 (real x, real z) offset)"
                "snd (Terrain_getHeight lib t2 (real x, real z) offset)"]
  show ?case
    by (simp add: split_beta)
qed

lemma createGrid_z_loop_same_generation:
  assumes "same_generation t1 t2"
  shows "fst (createGrid_z_loop lib offset zs xs (g, t1)) =
           fst (createGrid_z_loop lib offset zs xs (g, t2)) \<and>
         same_generation (snd (createGrid_z_loop lib offset zs xs (g, t1)))
           (snd (createGrid_z_loop lib offset zs xs (g, t2)))"
  using assms
proof (induction zs arbitrary: g t1 t2)
  case Nil
  then show ?case by simp
next
  case (Cons z zs)
  obtain g1 u1 where r1: "createGrid_x_loop lib offset z xs (g, t1) = (g1, u1)"
    by (cases "createGrid_x_loop lib offset z xs (g, t1)")
  obtain g2 u2 where r2: "createGrid_x_loop lib offset z xs (g, t2) = (g2, u2)"
    by (cases "createGrid_x_loop lib offset z xs (g, t2)")
  from createGrid_x_loop_same_generation [OF Cons.prems, of lib offset z xs g]
  have "g1 = g2" and "same_generation u1 u2"
    by (simp_all add: r1 r2)
  with Cons.IH [of u1 u2 g2] show ?case
    by (simp add: r1 r2)
qed

lemma createGrid_same_generation:
  assumes "same_generation t1 t2"
  shows "rel_sum (=) (\<lambda>r1 r2. fst r1 = fst r2 \<and> same_generation (snd r1) (snd r2) \<and>
             chunks (snd r1) = chunks t1 \<and> chunks (snd r2) = chunks t2)
           (Chunk_createGrid lib t1 sz res offset) (Chunk_createGrid lib t2 sz res offset)"
proof (cases "createEmptyMatrix (Math_floor (js_div (Num sz) (Num res)))")
  case (Inl e)
  then show ?thesis by (simp add: Chunk_createGrid_def)
next
  case m: (Inr m)
  show ?thesis
  proof (cases "for_range (Math_floor (js_div (Num sz) (Num res)))")
    case (Inl e)
    with m show ?thesis by (simp add: Chunk_createGrid_def)
  next
    case (Inr idx)
    with m createGrid_z_loop_same_generation [OF assms, of lib offset idx idx m]
    show ?thesis
      by (simp add: Chunk_createGrid_def createGrid_z_loop_chunks)
  qed
qed

text \<open>
  The relation that the loops of \<open>create\<close> keep: the terrains agree on what a build
  reads, and the chunks they hold from the positions \<open>n1\<close> and \<open>n2\<close> on have the same grids.
\<close>

lemma create_x_loop_same_generation:
  assumes "same_generation t1 t2"
    and "n1 \<le> length (chunks t1)" and "n2 \<le> length (chunks t2)"
    and "map grid (drop n1 (chunks t1)) = map grid (drop n2 (chunks t2))"
  shows "rel_sum (=) (\<lambda>u1 u2. same_generation u1 u2 \<and>
             n1 \<le> length (chunks u1) \<and> n2 \<le> length (chunks u2) \<and>
             map grid (drop n1 (chunks u1)) = map grid (drop n2 (chunks u2)))
           (create_x_loop lib z xs t1) (create_x_loop lib z xs t2)"
  using assms
proof (induction xs arbitrary: t1 t2)
  case Nil
  then show ?case by simp
next
  case (Cons x xs)
  have cs: "chunkSize t1 = chunkSize t2" and rs: "resolution t1 = resolution t2"
    using Cons.prems(1) by (simp_all add: same_generation_def)
  let ?o = "(real x * chunkSize t2, real z * chunkSize t2)"
  from rel_sum_eq_cases
    [OF createGrid_same_generation [OF Cons.prems(1), of lib "chunkSize t2" "resolution t2" ?o]]
  show ?case
  proof (elim disjE exE conjE)
    fix e
    assume "Chunk_createGrid lib t1 (chunkSize t2) (resolution t2) ?o = Inl e"
      and "Chunk_createGrid lib t2 (chunkSize t2) (resolution t2) ?o = Inl e"
    then show ?thesis
      by (simp add: Chunk_constructor_def cs rs)
  next
    fix r1 r2
    assume Inr: "Chunk_createGrid lib t1 (chunkSize t2) (resolution t2) ?o = Inr r1"
      "Chunk_createGrid lib t2 (chunkSize t2) (resolution t2) ?o = Inr r2"
      and rel: "fst r1 = fst r2" "same_generation (snd r1) (snd r2)"
        "chunks (snd r1) = chunks t1" "chunks (snd r2) = chunks t2"
    obtain g u1 where r1: "r1 = (g, u1)" by (cases r1)
    obtain g' u2 where r2: "r2 = (g', u2)" by (cases r2)
    from rel have g: "g' = g" and sg: "same_generation u1 u2"
      and c1: "chunks u1 = chunks t1" and c2: "chunks u2 = chunks t2"
      by (simp_all add: r1 r2)
    define k1 where "k1 = \<lparr> chunk_size = chunkSize t2, chunk_offset = ?o,
      chunk_resolution = resolution t2, chunk_heightMultiplier = heightMultiplier t1,
      chunk_islands = islands t1, chunk_wireframe = wireframe t1, grid = g \<rparr>"
    define k2 where "k2 = \<lparr> chunk_size = chunkSize t2, chunk_offset = ?o,
      chunk_resolution = resolution t2, chunk_heightMultiplier = heightMultiplier t2,
      chunk_islands = islands t2, chunk_wireframe = wireframe t2, grid = g \<rparr>"
    show ?thesis
    proof (cases "Chunk_createMesh (chunkSize t2) (resolution t2)")
      case (Inl e)
      with Inr show ?thesis
        by (simp add: Chunk_constructor_def cs rs r1 r2)
    next
      case mesh: (Inr mesh)
      have s1: "create_x_loop lib z (x # xs) t1 = create_x_loop lib z xs (Terrain_addChunk u1 k1)"
        using Inr(1) mesh by (simp add: Chunk_constructor_def cs rs r1 k1_def)
      have s2: "create_x_loop lib z (x # xs) t2 = create_x_loop lib z xs (Terrain_addChunk u2 k2)"
        using Inr(2) mesh by (simp add: Chunk_constructor_def r2 g k2_def)
      have a: "same_generation (Terrain_addChunk u1 k1) (Terrain_addChunk u2 k2)"
        using sg by (simp add: same_generation_def Terrain_addChunk_def)
      have b: "n1 \<le> length (chunks (Terrain_addChunk u1 k1))"
        "n2 \<le> length (chunks (Terrain_addChunk u2 k2))"
        using Cons.prems(2,3) by (simp_all add: Terrain_addChunk_def c1 c2)
      have c: "map grid (drop n1 (chunks (Terrain_addChunk u1 k1))) =
          map grid (drop n2 (chunks (Terrain_addChunk u2 k2)))"
        using Cons.prems(2,3,4) by (simp add: Terrain_addChunk_def c1 c2 k1_def k2_def)
      from Cons.IH [OF a b c] show ?thesis
        unfolding s1 s2 .
    qed
  qed
qed

lemma create_z_loop_same_generation:
  assumes "same_generation t1 t2"
    and "n1 \<le> length (chunks t1)" and "n2 \<le> length (chunks t2)"
    and "map grid (drop n1 (chunks t1)) = map grid (drop n2 (chunks t2))"
  shows "rel_sum (=) (\<lambda>u1 u2. same_generation u1 u2 \<and>
             n1 \<le> length (chunks u1) \<and> n2 \<le> length (chunks u2) \<and>
             map grid (drop n1 (chunks u1)) = map grid (drop n2 (chunks u2)))
           (create_z_loop lib zs xs t1) (create_z_loop lib zs xs t2)"
  using assms
proof (induction zs arbitrary: t1 t2)
  case Nil
  then show ?case by simp
next
  case (Cons z zs)
  from rel_sum_eq_cases [OF create_x_loop_same_generation [OF Cons.prems, of lib z xs]]
  show ?case
  proof (elim disjE exE conjE)
    fix e
    assume "create_x_loop lib z xs t1 = Inl e" and "create_x_loop lib z xs t2 = Inl e"
    then show ?thesis by simp
  next
    fix u1 u2
    assume "create_x_loop lib z xs t1 = Inr u1" and "create_x_loop lib z xs t2 = Inr u2"
      and "same_generation u1 u2" and "n1 \<le> length (chunks u1)"
      and "n2 \<le> length (chunks u2)"
      and "map grid (drop n1 (chunks u1)) = map grid (drop n2 (chunks u2))"
    with Cons.IH [of u1 u2] show ?thesis by simp
  qed
qed

lemma build_depends_on_generation_state:
  assumes "same_generation t1 t2"
  shows "built_grids lib t1 = built_grids lib t2"
proof -
  have sz: "size' t1 = size' t2"
    using assms by (simp add: same_generation_def)
  let ?idx = "[0..<nat \<lceil>size' t2\<rceil>]"
  from rel_sum_eq_cases [OF create_z_loop_same_generation
    [OF assms, of "length (chunks t1)" "length (chunks t2)" lib ?idx ?idx]]
  show ?thesis
    by (auto simp: built_grids_def Terrain_create_def sz Let_def)
qed

lemma new_terrains_build_the_same_grids:
  assumes "size' c1 = size' c2" and "chunkSize c1 = chunkSize c2"
    and "resolution c1 = resolution c2" and "octaves c1 = octaves c2"
    and "persistance c1 = persistance c2" and "lacunarity c1 = lacunarity c2"
  shows "map_sum id Terrain_grids (main lib c1 s) = map_sum id Terrain_grids (main lib c2 s)"
proof -
  have "same_generation (Terrain_constructor c1 s) (Terrain_constructor c2 s)"
    using assms by (simp add: same_generation_def Terrain_constructor_def Noise_constructor_def)
  from build_depends_on_generation_state [OF this, of lib] show ?thesis
    by (simp add: built_grids_def main_def Terrain_grids_def [abs_def] Terrain_constructor_def)
qed

section \<open>Two builds with one seed and one configuration\<close>

text \<open>
  C3. The claim wants two builds of one seed and one configuration to give the same
  grids. Two newly constructed terrains of one seed do (lemma
  \<open>new_terrains_build_the_same_grids\<close>), but every terrain draws its own seed: the
  program builds twice with one seed only when \<open>animate\<close> rebuilds a terrain, and a
  rebuild starts from the extremes of the builds before it (C9). Here the small
  configuration is built, the \<open>wireframe\<close> flag is switched on and off again, and the
  third build, of the configuration and the seed of the first, gives another grid: its
  first cell is \<open>1/2\<close>, not \<open>NaN\<close>.
\<close>

theorem rebuild_of_same_config_differs:
  "map_sum id (\<lambda>t. (Terrain_hash t, seed (noise t), Terrain_grids t))
     (main ramp_noise small_config 0) =
     Inr (small_config, 0, [[[NaN, Num 1], [Num 0, Num (1 / 2)]]]) \<and>
   map_sum id (\<lambda>t. (Terrain_hash t, seed (noise t), Terrain_grids t))
     (case main ramp_noise small_config 0 of
        Inl e \<Rightarrow> Inl e
      | Inr t \<Rightarrow>
          animate_frames ramp_noise [small_config\<lparr>wireframe := True\<rparr>, small_config] t) =
     Inr (small_config, 0, [[[Num (1 / 2), Num 1], [Num 0, Num (1 / 2)]]])"
  by (simp add: terrain_eval frame_eval)

section \<open>The border of two adjacent tiles\<close>

lemma noisePosition_Num:
  assumes "size' t * chunkSize t \<noteq> 0" and "resolution t \<noteq> 0"
  shows "Terrain_noisePosition t (px, pz) (ox, oz) =
     (Num ((px * of_int \<lfloor>chunkSize t / resolution t\<rfloor> + ox) / (size' t * chunkSize t)),
      Num ((pz * of_int \<lfloor>chunkSize t / resolution t\<rfloor> + oz) / (size' t * chunkSize t)))"
  using assms by (simp add: Terrain_noisePosition_def Let_def)

text \<open>
  C4, as the claim states it, fails: in the default configuration a chunk has 23
  columns, the last column of the tile \<open>(0, 0)\<close> is sampled at \<open>506 / 1536\<close> and the
  first column of the tile \<open>(0, 1)\<close> at \<open>512 / 1536\<close>.
\<close>

theorem default_border_coordinates_differ:
  "gridSize_of (chunkSize DEFAULT_CONFIG) (resolution DEFAULT_CONFIG) = Num 23 \<and>
   Terrain_noisePosition (Terrain_constructor DEFAULT_CONFIG 0) (22, 0) (0 * 512, 0 * 512) =
     (Num (506 / 1536), Num 0) \<and>
   Terrain_noisePosition (Terrain_constructor DEFAULT_CONFIG 0) (0, 0) (1 * 512, 0 * 512) =
     (Num (512 / 1536), Num 0)"
  by (simp add: Terrain_noisePosition_def Terrain_constructor_def DEFAULT_CONFIG_def
      gridSize_of_def Let_def)

text \<open>
  C4, amended. Let the terrain have a nonzero width \<open>size * chunkSize\<close>, a nonzero
  resolution and a grid size \<open>g = floor(chunkSize / resolution)\<close> of at least one
  column. For the tiles \<open>(r, c)\<close> and \<open>(r, c + 1)\<close>, the last column of the first and the
  first column of the second are sampled at the same coordinate exactly when
  \<open>g * (g - 1) = chunkSize\<close>; and whenever the two coordinates are the same, the raw
  fractal value computed there is the same.
\<close>

theorem adjacent_tiles_border:
  assumes "size' t * chunkSize t \<noteq> 0" and "resolution t \<noteq> 0"
    and "1 \<le> \<lfloor>chunkSize t / resolution t\<rfloor>"
  shows
    "(Terrain_noisePosition t (of_int \<lfloor>chunkSize t / resolution t\<rfloor> - 1, z)
        (real c * chunkSize t, real r * chunkSize t) =
      Terrain_noisePosition t (0, z) (real (c + 1) * chunkSize t, real r * chunkSize t)
      \<longleftrightarrow>
      of_int \<lfloor>chunkSize t / resolution t\<rfloor> * (of_int \<lfloor>chunkSize t / resolution t\<rfloor> - 1) =
        chunkSize t) \<and>
     (Terrain_noisePosition t (of_int \<lfloor>chunkSize t / resolution t\<rfloor> - 1, z)
        (real c * chunkSize t, real r * chunkSize t) =
      Terrain_noisePosition t (0, z) (real (c + 1) * chunkSize t, real r * chunkSize t)
      \<longrightarrow>
      Terrain_rawHeight lib t (of_int \<lfloor>chunkSize t / resolution t\<rfloor> - 1, z)
        (real c * chunkSize t, real r * chunkSize t) =
      Terrain_rawHeight lib t (0, z) (real (c + 1) * chunkSize t, real r * chunkSize t))"
proof -
  define g :: real where "g = of_int \<lfloor>chunkSize t / resolution t\<rfloor>"
  define w where "w = size' t * chunkSize t"
  have w: "w \<noteq> 0" using assms(1) by (simp add: w_def)
  have "((g - 1) * g + real c * chunkSize t) / w = (0 * g + real (c + 1) * chunkSize t) / w
      \<longleftrightarrow> (g - 1) * g + real c * chunkSize t = 0 * g + real (c + 1) * chunkSize t"
    using w by simp
  also have "\<dots> \<longleftrightarrow> g * (g - 1) = chunkSize t"
    by (auto simp: algebra_simps)
  finally have "((g - 1) * g + real c * chunkSize t) / w =
      (0 * g + real (c + 1) * chunkSize t) / w \<longleftrightarrow> g * (g - 1) = chunkSize t" .
  then have "Terrain_noisePosition t (g - 1, z) (real c * chunkSize t, real r * chunkSize t) =
      Terrain_noisePosition t (0, z) (real (c + 1) * chunkSize t, real r * chunkSize t)
      \<longleftrightarrow> g * (g - 1) = chunkSize t"
    unfolding noisePosition_Num [OF assms(1,2)] g_def [symmetric] w_def [symmetric]
    by simp
  then have first: "Terrain_noisePosition t (of_int \<lfloor>chunkSize t / resolution t\<rfloor> - 1, z)
        (real c * chunkSize t, real r * chunkSize t) =
      Terrain_noisePosition t (0, z) (real (c + 1) * chunkSize t, real r * chunkSize t)
      \<longleftrightarrow>
      of_int \<lfloor>chunkSize t / resolution t\<rfloor> * (of_int \<lfloor>chunkSize t / resolution t\<rfloor> - 1) =
        chunkSize t"
    unfolding g_def .
  show ?thesis
  proof (intro conjI impI)
    show "Terrain_noisePosition t (of_int \<lfloor>chunkSize t / resolution t\<rfloor> - 1, z)
        (real c * chunkSize t, real r * chunkSize t) =
      Terrain_noisePosition t (0, z) (real (c + 1) * chunkSize t, real r * chunkSize t)
      \<longleftrightarrow>
      of_int \<lfloor>chunkSize t / resolution t\<rfloor> * (of_int \<lfloor>chunkSize t / resolution t\<rfloor> - 1) =
        chunkSize t"
      by (rule first)
  next
    assume "Terrain_noisePosition t (of_int \<lfloor>chunkSize t / resolution t\<rfloor> - 1, z)
        (real c * chunkSize t, real r * chunkSize t) =
      Terrain_noisePosition t (0, z) (real (c + 1) * chunkSize t, real r * chunkSize t)"
    then show "Terrain_rawHeight lib t (of_int \<lfloor>chunkSize t / resolution t\<rfloor> - 1, z)
        (real c * chunkSize t, real r * chunkSize t) =
      Terrain_rawHeight lib t (0, z) (real (c + 1) * chunkSize t, real r * chunkSize t)"
      unfolding Terrain_rawHeight_def by (rule arg_cong)
  qed
qed

theorem adjacent_tiles_border_witness:
  "Terrain_noisePosition
     (Terrain_constructor (DEFAULT_CONFIG\<lparr>chunkSize := 6, resolution := 2\<rparr>) 0) (2, 0) (0, 0) =
   Terrain_noisePosition
     (Terrain_constructor (DEFAULT_CONFIG\<lparr>chunkSize := 6, resolution := 2\<rparr>) 0) (0, 0) (6, 0) \<and>
   Terrain_rawHeight ramp_noise
     (Terrain_constructor (DEFAULT_CONFIG\<lparr>chunkSize := 6, resolution := 2\<rparr>) 0) (2, 0) (0, 0) =
   Terrain_rawHeight ramp_noise
     (Terrain_constructor (DEFAULT_CONFIG\<lparr>chunkSize := 6, resolution := 2\<rparr>) 0) (0, 0) (6, 0)"
  using adjacent_tiles_border
    [of "Terrain_constructor (DEFAULT_CONFIG\<lparr>chunkSize := 6, resolution := 2\<rparr>) 0" 0 0 0 ramp_noise]
  by (simp add: Terrain_constructor_def DEFAULT_CONFIG_def)

section \<open>The material bands\<close>

text \<open>
  C7, as the claim states it, fails on the second variant, whose water level is 0.35:
  the height 0.4 is below 0.45 and is coloured as sand.
\<close>

theorem second_variant_water_level:
  "Chunk2_color (Num (4 / 10)) = sand \<and> Chunk_color (Num (4 / 10)) = water"
  by (simp add: Chunk2_color_def Chunk_color_def)

text \<open>
  C7, amended. The colour is defined for every height, with fixed thresholds. In the
  first variant a finite height below 0.45 is water, below 0.5 sand, below 0.7 grass,
  below 0.9 rock, and snow otherwise, and the map generator has the same bands; the
  second variant differs in the water level alone, which is 0.35. A height on a threshold belongs to the upper band: 0.45 is
  sand in the first variant and 0.35 is sand in the second. \<open>NaN\<close> is snow in both.
\<close>

theorem color_bands:
  "Chunk_color (Num h) =
     (if h < 45 / 100 then water else if h < 5 / 10 then sand
      else if h < 7 / 10 then grass else if h < 9 / 10 then rock else snow) \<and>
   Chunk2_color (Num h) =
     (if h < 35 / 100 then water else if h < 5 / 10 then sand
      else if h < 7 / 10 then grass else if h < 9 / 10 then rock else snow) \<and>
   MapGenerator_color (Num h) = Chunk_color (Num h) \<and>
   Chunk_color (Num (45 / 100)) = sand \<and> Chunk2_color (Num (35 / 100)) = sand \<and>
   Chunk_color NaN = snow \<and> Chunk2_color NaN = snow"
  by (simp add: Chunk_color_def Chunk2_color_def MapGenerator_color_def)

section \<open>Properties of the falloff mask\<close>














section \<open>The map generator: falloff and normalization\<close>

lemma rawHeight_extremes [simp]:
  "MapGenerator_rawHeight perlin (this\<lparr>mg_minHeight := a\<rparr>) x y =
     MapGenerator_rawHeight perlin this x y"
  "MapGenerator_rawHeight perlin (this\<lparr>mg_maxHeight := b\<rparr>) x y =
     MapGenerator_rawHeight perlin this x y"
  "MapGenerator_rawHeight perlin (this\<lparr>mg_falloff := f\<rparr>) x y =
     MapGenerator_rawHeight perlin this x y"
  by (simp_all add: MapGenerator_rawHeight_def)












text \<open>\<open>small_mapgen\<close> is the object whose map the constructor creates.\<close>

lemma small_mapgen_is_constructed:
  "MapGenerator_constructor perlin small_mapgen_config (0, 0) =
     (case MapGenerator_createMap perlin small_mapgen of
        Inl e \<Rightarrow> Inl e
      | Inr (m, this') \<Rightarrow>
          (case MapGenerator_createMesh (this'\<lparr>mg_map := m\<rparr>) of
             Inl e \<Rightarrow> Inl e
           | Inr mesh \<Rightarrow> Inr (this'\<lparr>mg_map := m\<rparr>)))"
  by (simp add: MapGenerator_constructor_def small_mapgen_config_def small_mapgen_def)





end
